theory Spec2Isabelle
  imports Main
begin

section \<open>Python values and their textual forms\<close>

text \<open>
  The tracer formats every label with Python's \<open>repr\<close> and \<open>str\<close>. The values of the
  model are the ones whose textual form is fixed by their content: \<open>None\<close>, booleans,
  integers, strings, lists and tuples. A string is a list of code points below 256.
  Function objects and class instances are not values of the model (their \<open>repr\<close>
  holds a memory address).
\<close>

datatype pyval =
    VNone
  | VBool bool
  | VInt int
  | VStr string
  | VList "pyval list"
  | VTuple "pyval list"

definition digit_char :: "nat \<Rightarrow> char" where
  "digit_char d = char_of (48 + d)"

fun str_nat :: "nat \<Rightarrow> string" where
  "str_nat n = (if n < 10 then [digit_char n] else str_nat (n div 10) @ [digit_char (n mod 10)])"

declare str_nat.simps [simp del]

definition str_int :: "int \<Rightarrow> string" where
  "str_int i = (if i < 0 then CHR ''-'' # str_nat (nat (- i)) else str_nat (nat i))"

text \<open>\<open>sep.join(xs)\<close>\<close>

fun join :: "string \<Rightarrow> string list \<Rightarrow> string" where
  "join sep [] = []"
| "join sep [x] = x"
| "join sep (x # y # ys) = x @ sep @ join sep (y # ys)"

text \<open>
  \<open>repr\<close> of a string: double quotes when the text holds a single quote and no double
  quote, single quotes otherwise; the quote and the backslash are escaped, tab, newline
  and carriage return are written \<open>\t\<close>, \<open>\n\<close>, \<open>\r\<close>, and every other code point
  that is not printable is written \<open>\xhh\<close>.
\<close>

definition hex_char :: "nat \<Rightarrow> char" where
  "hex_char d = (if d < 10 then char_of (48 + d) else char_of (87 + d))"

definition printable :: "char \<Rightarrow> bool" where
  "printable c = (let n = (of_char c :: nat) in (32 \<le> n \<and> n \<le> 126) \<or> (161 \<le> n \<and> n \<noteq> 173))"

definition escape_char :: "char \<Rightarrow> char \<Rightarrow> string" where
  "escape_char q c =
     (if c = q \<or> c = CHR 0x5C then [CHR 0x5C, c]
      else if c = CHR 0x09 then [CHR 0x5C, CHR ''t'']
      else if c = CHR 0x0A then [CHR 0x5C, CHR ''n'']
      else if c = CHR 0x0D then [CHR 0x5C, CHR ''r'']
      else if \<not> printable c then
        [CHR 0x5C, CHR ''x'', hex_char (of_char c div 16), hex_char (of_char c mod 16)]
      else [c])"

definition repr_str :: "string \<Rightarrow> string" where
  "repr_str s =
     (let q = (if CHR 0x27 \<in> set s \<and> CHR 0x22 \<notin> set s then CHR 0x22 else CHR 0x27)
      in q # concat (map (escape_char q) s) @ [q])"

fun py_repr :: "pyval \<Rightarrow> string" where
  "py_repr VNone = ''None''"
| "py_repr (VBool b) = (if b then ''True'' else ''False'')"
| "py_repr (VInt i) = str_int i"
| "py_repr (VStr s) = repr_str s"
| "py_repr (VList xs) = ''['' @ join '', '' (map py_repr xs) @ '']''"
| "py_repr (VTuple xs) =
     (case xs of
        [x] \<Rightarrow> ''('' @ py_repr x @ '',)''
      | _ \<Rightarrow> ''('' @ join '', '' (map py_repr xs) @ '')'')"

text \<open>\<open>str(v)\<close>, which is also what an f-string field \<open>{v}\<close> writes.\<close>

definition py_str :: "pyval \<Rightarrow> string" where
  "py_str v = (case v of VStr s \<Rightarrow> s | _ \<Rightarrow> py_repr v)"

section \<open>The Graph Builder: class DebugFlowVisualizer\<close>

text \<open>
  The fields of \<open>DebugFlowVisualizer\<close>. The \<open>graphviz.Digraph\<close> held in \<open>self.dot\<close>
  is the list of nodes declared so far (identifier, label, shape) and the list of edges
  (tail, head), both in the order of the calls \<open>dot.node\<close> and \<open>dot.edge\<close>.
\<close>

record visualizer =
  dot_nodes :: "(string \<times> string \<times> string) list"
  dot_edges :: "(string \<times> string) list"
  node_count :: nat
  current_function :: "string option"
  execution_path :: "string list"
  loop_stack :: "string list"

definition init_visualizer :: visualizer where
  "init_visualizer =
     \<lparr>dot_nodes = [], dot_edges = [], node_count = 0, current_function = None,
      execution_path = [], loop_stack = []\<rparr>"

definition node_name :: "nat \<Rightarrow> string" where
  "node_name n = ''node_'' @ str_nat n"

text \<open>
  \<open>add_node(self, label, result=None, shape='box')\<close>. The argument \<open>result\<close> is a
  Python value, \<open>VNone\<close> when it is left out.
\<close>

definition add_node :: "string \<Rightarrow> pyval \<Rightarrow> string \<Rightarrow> visualizer \<Rightarrow> string \<times> visualizer" where
  "add_node label result shape v =
     (let node_id = node_name (node_count v);
          label1 = (if result \<noteq> VNone then label @ [CHR 0x0A] @ ''Result: '' @ py_str result
                    else label);
          v1 = v\<lparr>dot_nodes := dot_nodes v @ [(node_id, label1, shape)]\<rparr>;
          v2 = v1\<lparr>node_count := node_count v1 + 1\<rparr>;
          v3 = (if execution_path v2 \<noteq> []
                then v2\<lparr>dot_edges := dot_edges v2 @ [(last (execution_path v2), node_id)]\<rparr>
                else v2);
          v4 = v3\<lparr>execution_path := execution_path v3 @ [node_id]\<rparr>
      in (node_id, v4))"

text \<open>A session that only calls \<open>add_node\<close>, once for each triple of arguments.\<close>

fun add_nodes :: "(string \<times> pyval \<times> string) list \<Rightarrow> visualizer \<Rightarrow> visualizer" where
  "add_nodes [] v = v"
| "add_nodes ((label, result, shape) # cs) v = add_nodes cs (snd (add_node label result shape v))"

text \<open>The label-formatting methods of the class, each a thin wrapper of \<open>add_node\<close>.\<close>

definition start_function :: "string \<Rightarrow> pyval list \<Rightarrow> (string \<times> pyval) list \<Rightarrow> visualizer \<Rightarrow> visualizer" where
  "start_function func_name args kwargs v =
     (let v1 = v\<lparr>current_function := Some func_name\<rparr>;
          args_str = join '', '' (map (\<lambda>kv. fst kv @ ''='' @ py_repr (snd kv)) kwargs @ map py_repr args)
      in snd (add_node (''Function: '' @ func_name @ ''('' @ args_str @ '')'') VNone ''ellipse'' v1))"

definition end_function :: "pyval \<Rightarrow> visualizer \<Rightarrow> visualizer" where
  "end_function result v =
     (let v1 = snd (add_node (''Return: '' @ py_repr result) VNone ''diamond'' v)
      in v1\<lparr>current_function := None\<rparr>)"

definition start_loop :: "pyval \<Rightarrow> visualizer \<Rightarrow> visualizer" where
  "start_loop loop_info v = snd (add_node (''Loop Start: '' @ py_str loop_info) VNone ''parallelogram'' v)"

definition loop_iteration :: "pyval \<Rightarrow> visualizer \<Rightarrow> visualizer" where
  "loop_iteration iteration v =
     snd (add_node (''Loop Iteration: '' @ py_str iteration) VNone ''parallelogram'' v)"

definition end_loop :: "visualizer \<Rightarrow> visualizer" where
  "end_loop v = snd (add_node ''Loop End'' VNone ''parallelogram'' v)"

definition add_condition :: "pyval \<Rightarrow> pyval \<Rightarrow> visualizer \<Rightarrow> visualizer" where
  "add_condition condition result v =
     snd (add_node (''Condition: '' @ py_str condition) result ''diamond'' v)"

definition add_variable :: "pyval \<Rightarrow> pyval \<Rightarrow> visualizer \<Rightarrow> visualizer" where
  "add_variable var_name val v =
     snd (add_node (''Variable: '' @ py_str var_name @ '' = '' @ py_repr val) VNone ''plaintext'' v)"

definition add_print :: "pyval \<Rightarrow> visualizer \<Rightarrow> visualizer" where
  "add_print content v = snd (add_node (''Print: '' @ py_str content) VNone ''oval'' v)"

definition add_if_branch :: "pyval \<Rightarrow> pyval \<Rightarrow> visualizer \<Rightarrow> visualizer" where
  "add_if_branch condition branch v =
     snd (add_node (''If Branch: '' @ py_str condition @ [CHR 0x0A] @ ''Taken: '' @ py_str branch)
            VNone ''diamond'' v)"

text \<open>The labels of a graph, in creation order.\<close>

definition labels :: "visualizer \<Rightarrow> string list" where
  "labels v = map (\<lambda>nd. fst (snd nd)) (dot_nodes v)"

text \<open>The labels of the nodes that \<open>v'\<close> has beyond those of \<open>v\<close>.\<close>

definition new_labels :: "visualizer \<Rightarrow> visualizer \<Rightarrow> string list" where
  "new_labels v v' = drop (length (dot_nodes v)) (labels v')"

section \<open>Syntax trees\<close>

text \<open>
  The part of Python's \<open>ast\<close> that the transformer treats specially, with enough of the
  rest to write programs: names, constants, calls with positional and keyword arguments,
  list and tuple displays, attribute and subscript expressions, one-operator comparisons
  and the binary operators \<open>+\<close>, \<open>-\<close>, \<open>*\<close>. An assignment has at least one target
  (\<open>node.targets[0]\<close> and the further targets of a chained assignment).
\<close>

datatype cmpop = Eq | NotEq | Lt | LtE | Gt | GtE

datatype operator = Add | Sub | Mult

datatype expr =
    Name string
  | Constant pyval
  | Call expr "expr list" "(string \<times> expr) list"
  | ListExpr "expr list"
  | TupleExpr "expr list"
  | Attribute expr string
  | Subscript expr expr
  | Compare expr cmpop expr
  | BinOp expr operator expr

datatype stmt =
    FunctionDef string "string list" "stmt list" "expr list"
  | For expr expr "stmt list" "stmt list"
  | IfStmt expr "stmt list" "stmt list"
  | Assign expr "expr list" expr
  | Expr expr
  | Return "expr option"
  | Pass

subsection \<open>ast.unparse on expressions\<close>

text \<open>
  The unparser writes an expression in parentheses when the precedence its context asks
  for is above its own. The levels used here, as numbered by \<open>ast._Precedence\<close>:
  TUPLE 2, TEST 4 (the default), CMP 8, EXPR 9, ARITH 13, TERM 14, ATOM 18.
\<close>

definition cmpop_str :: "cmpop \<Rightarrow> string" where
  "cmpop_str op = (case op of Eq \<Rightarrow> ''=='' | NotEq \<Rightarrow> ''!='' | Lt \<Rightarrow> ''<'' | LtE \<Rightarrow> ''<=''
                    | Gt \<Rightarrow> ''>'' | GtE \<Rightarrow> ''>='')"

definition binop_str :: "operator \<Rightarrow> string" where
  "binop_str op = (case op of Add \<Rightarrow> ''+'' | Sub \<Rightarrow> ''-'' | Mult \<Rightarrow> ''*'')"

definition binop_precedence :: "operator \<Rightarrow> nat" where
  "binop_precedence op = (case op of Add \<Rightarrow> 13 | Sub \<Rightarrow> 13 | Mult \<Rightarrow> 14)"

definition delimit_if :: "bool \<Rightarrow> string \<Rightarrow> string" where
  "delimit_if c s = (if c then ''('' @ s @ '')'' else s)"

definition items_view :: "string list \<Rightarrow> string" where
  "items_view items = (case items of [x] \<Rightarrow> x @ '','' | _ \<Rightarrow> join '', '' items)"

definition is_int_constant :: "expr \<Rightarrow> bool" where
  "is_int_constant e =
     (case e of Constant (VInt i) \<Rightarrow> True | Constant (VBool b) \<Rightarrow> True | _ \<Rightarrow> False)"

fun unparse_prec :: "nat \<Rightarrow> expr \<Rightarrow> string" where
  "unparse_prec p (Name x) = x"
| "unparse_prec p (Constant c) = py_repr c"
| "unparse_prec p (Call func args keywords) =
     unparse_prec 18 func @ ''('' @
       join '', '' (map (unparse_prec 4) args @
                    map (\<lambda>kw. fst kw @ ''='' @ unparse_prec 4 (snd kw)) keywords) @ '')''"
| "unparse_prec p (ListExpr elts) = ''['' @ join '', '' (map (unparse_prec 4) elts) @ '']''"
| "unparse_prec p (TupleExpr elts) =
     delimit_if (elts = [] \<or> p > 2) (items_view (map (unparse_prec 4) elts))"
| "unparse_prec p (Attribute e attr) =
     unparse_prec 18 e @ (if is_int_constant e then '' '' else []) @ ''.'' @ attr"
| "unparse_prec p (Subscript e slice) =
     unparse_prec 18 e @ ''['' @
       (case slice of
          TupleExpr (x # xs) \<Rightarrow> items_view (map (unparse_prec 4) (x # xs))
        | _ \<Rightarrow> unparse_prec 4 slice) @ '']''"
| "unparse_prec p (Compare left op right) =
     delimit_if (p > 8) (unparse_prec 9 left @ '' '' @ cmpop_str op @ '' '' @ unparse_prec 9 right)"
| "unparse_prec p (BinOp left op right) =
     delimit_if (p > binop_precedence op)
       (unparse_prec (binop_precedence op) left @ '' '' @ binop_str op @ '' '' @
        unparse_prec (Suc (binop_precedence op)) right)"

definition unparse :: "expr \<Rightarrow> string" where
  "unparse e = unparse_prec 4 e"

section \<open>The Tree Transformer: class DebugTransformer\<close>

text \<open>
  \<open>visit_Call\<close> replaces a call of the name \<open>print\<close> by a call of \<open>debug_print\<close> with
  the same arguments. It does not call \<open>generic_visit\<close>: the arguments of a call are not
  visited.
\<close>

definition visit_Call :: "expr \<Rightarrow> expr list \<Rightarrow> (string \<times> expr) list \<Rightarrow> expr" where
  "visit_Call func args keywords =
     (if func = Name ''print'' then Call (Name ''debug_print'') args keywords
      else Call func args keywords)"

text \<open>
  \<open>NodeTransformer.visit\<close> on an expression: \<open>visit_Call\<close> on a call, and
  \<open>generic_visit\<close> (every child visited in turn) on every other kind of node.
\<close>

fun visit_expr :: "expr \<Rightarrow> expr" where
  "visit_expr (Name x) = Name x"
| "visit_expr (Constant c) = Constant c"
| "visit_expr (Call func args keywords) = visit_Call func args keywords"
| "visit_expr (ListExpr elts) = ListExpr (map visit_expr elts)"
| "visit_expr (TupleExpr elts) = TupleExpr (map visit_expr elts)"
| "visit_expr (Attribute e attr) = Attribute (visit_expr e) attr"
| "visit_expr (Subscript e slice) = Subscript (visit_expr e) (visit_expr slice)"
| "visit_expr (Compare left op right) = Compare (visit_expr left) op (visit_expr right)"
| "visit_expr (BinOp left op right) = BinOp (visit_expr left) op (visit_expr right)"

text \<open>
  \<open>visit_For\<close> puts the loop target itself, the same object, into the inserted call of
  \<open>debug_loop_iteration\<close>. \<open>generic_visit\<close> then rewrites the children of the target in
  place, so the inserted argument ends as the visited target; a target that is itself a
  call is replaced in the loop (or returned as it is) and the inserted argument stays the
  original node.
\<close>

definition shared_target :: "expr \<Rightarrow> expr" where
  "shared_target target = (case target of Call f a k \<Rightarrow> target | _ \<Rightarrow> visit_expr target)"

definition debug_call :: "string \<Rightarrow> expr list \<Rightarrow> stmt" where
  "debug_call name args = Expr (Call (Name name) args [])"

definition is_Name :: "expr \<Rightarrow> bool" where
  "is_Name e = (case e of Name x \<Rightarrow> True | _ \<Rightarrow> False)"

text \<open>
  \<open>visit_Assign\<close>: the test is on \<open>node.targets[0]\<close> only, and the node is returned
  without \<open>generic_visit\<close>.
\<close>

definition visit_Assign :: "expr \<Rightarrow> expr list \<Rightarrow> expr \<Rightarrow> stmt list" where
  "visit_Assign target targets rhs =
     (case target of
        Name var_name \<Rightarrow>
          [Assign target targets rhs,
           debug_call ''debug_variable'' [Constant (VStr var_name), target]]
      | _ \<Rightarrow> [Assign target targets rhs])"

text \<open>
  \<open>NodeTransformer.visit\<close> on a statement gives the statements that take its place in
  the enclosing body (\<open>visit_Assign\<close> returns two), and \<open>visit_stmts\<close> is
  \<open>generic_visit\<close> on a body. The statements that \<open>visit_For\<close> and \<open>visit_If\<close> insert
  are visited with the rest of the new body.
\<close>

text \<open>
  The new bodies that \<open>visit_For\<close> and \<open>visit_If\<close> hand to \<open>generic_visit\<close> are
  longer than the bodies they come from, so the recursion is justified by a weight that
  leaves room for the inserted statements.
\<close>

fun stmt_weight :: "stmt \<Rightarrow> nat"
  and stmts_weight :: "stmt list \<Rightarrow> nat" where
  "stmt_weight (FunctionDef name params body decorator_list) = Suc (stmts_weight body)"
| "stmt_weight (For target iter body orelse) = 8 + stmts_weight body + stmts_weight orelse"
| "stmt_weight (IfStmt test body orelse) = 8 + stmts_weight body + stmts_weight orelse"
| "stmt_weight (Assign target targets rhs) = 1"
| "stmt_weight (Expr e) = 1"
| "stmt_weight (Return eo) = 1"
| "stmt_weight Pass = 1"
| "stmts_weight [] = 0"
| "stmts_weight (s # ss) = Suc (stmt_weight s + stmts_weight ss)"

lemma stmts_weight_append: "stmts_weight (xs @ ys) = stmts_weight xs + stmts_weight ys"
  by (induction xs) simp_all

function visit_stmt :: "stmt \<Rightarrow> stmt list"
  and visit_stmts :: "stmt list \<Rightarrow> stmt list" where
  "visit_stmt (FunctionDef name params body decorator_list) =
     [FunctionDef name params (visit_stmts body)
        (map visit_expr (decorator_list @ [Name ''debug_function'']))]"
| "visit_stmt (For target iter body orelse) =
     (let loop_info = unparse target @ '' in '' @ unparse iter;
          new_body =
            [debug_call ''debug_loop'' [Constant (VStr loop_info)],
             debug_call ''debug_loop_iteration'' [shared_target target]]
            @ body @ [debug_call ''debug_loop_end'' []]
      in [For (visit_expr target) (visit_expr iter) (visit_stmts new_body) (visit_stmts orelse)])"
| "visit_stmt (IfStmt test body orelse) =
     (let condition = unparse test;
          debug_condition_call = debug_call ''debug_condition'' [Constant (VStr condition)];
          true_branch_debug =
            debug_call ''debug_if_branch'' [Constant (VStr condition), Constant (VStr ''True'')];
          false_branch_debug =
            debug_call ''debug_if_branch'' [Constant (VStr condition), Constant (VStr ''False'')];
          new_body = [debug_condition_call, true_branch_debug] @ body;
          new_orelse = (if orelse \<noteq> [] then [false_branch_debug] @ orelse else [])
      in [IfStmt (visit_expr test) (visit_stmts new_body) (visit_stmts new_orelse)])"
| "visit_stmt (Assign target targets rhs) = visit_Assign target targets rhs"
| "visit_stmt (Expr e) = [Expr (visit_expr e)]"
| "visit_stmt (Return eo) = [Return (map_option visit_expr eo)]"
| "visit_stmt Pass = [Pass]"
| "visit_stmts [] = []"
| "visit_stmts (s # ss) = visit_stmt s @ visit_stmts ss"
  by pat_completeness auto

termination
  by (relation "measure (case_sum stmt_weight stmts_weight)")
     (simp_all add: debug_call_def stmts_weight_append)

section \<open>The world of a run\<close>

text \<open>
  Python exceptions are values. \<open>Unsupported\<close> is not an exception of Python: it marks
  a program that leaves the part of the language modelled here (an attribute or
  subscript target, a function used as a value, a builtin other than \<open>print\<close>, a nested
  function definition, a module-level binding of a name the tracer itself looks up).
\<close>

datatype error =
    TypeError
  | ValueError
  | AttributeError
  | UnboundLocalError
  | SyntaxError
  | OSError
  | Unsupported

text \<open>
  A name is bound to a value, to a function defined by the program (name, parameters,
  body, and whether \<open>debug_function\<close> wraps it) or to one of the callables that the
  tracer's module and the builtins provide.
\<close>

datatype binding =
    Val pyval
  | Fun string "string list" "stmt list" bool
  | Builtin string

type_synonym env = "(string \<times> binding) list"

text \<open>The kinds of report of the Runtime API, one for each entry point.\<close>

datatype report =
    FunctionEnter
  | FunctionExit
  | LoopStart
  | LoopIteration
  | LoopEnd
  | Condition
  | Variable
  | Print
  | IfBranch

text \<open>
  The state of the process while the instrumented program runs: the module-level
  singleton \<open>visualizer\<close>, the global names bound by the program, and the text written
  to the standard output. \<open>api_log\<close> is not a variable of the program: it records which
  Runtime API entry points have been executed, in order, so that they can be counted.
\<close>

record world =
  vis :: visualizer
  globals :: env
  stdout :: string
  api_log :: "report list"

definition init_world :: world where
  "init_world = \<lparr>vis = init_visualizer, globals = [], stdout = [], api_log = []\<rparr>"

definition emit :: "report \<Rightarrow> (visualizer \<Rightarrow> visualizer) \<Rightarrow> world \<Rightarrow> world" where
  "emit kind f w = w\<lparr>vis := f (vis w), api_log := api_log w @ [kind]\<rparr>"

section \<open>The Runtime API\<close>

type_synonym 'a result = "(error + 'a) \<times> world"

text \<open>
  \<open>debug_function(func)\<close> returns \<open>wrapper\<close>; \<open>debug_function name func\<close> is that
  wrapper for a function \<open>func\<close> whose \<open>__name__\<close> is \<open>name\<close>. A function of the
  program may not return (\<open>None\<close>) or raise (\<open>Inl\<close>), and then the wrapper does the same
  without reporting a return value.
\<close>

definition debug_function ::
  "string \<Rightarrow> (pyval list \<Rightarrow> (string \<times> pyval) list \<Rightarrow> world \<Rightarrow> pyval result option) \<Rightarrow>
   pyval list \<Rightarrow> (string \<times> pyval) list \<Rightarrow> world \<Rightarrow> pyval result option" where
  "debug_function name func args kwargs w =
     (let w1 = emit FunctionEnter (start_function name args kwargs) w
      in case func args kwargs w1 of
           None \<Rightarrow> None
         | Some (Inl e, w2) \<Rightarrow> Some (Inl e, w2)
         | Some (Inr r, w2) \<Rightarrow> Some (Inr r, emit FunctionExit (end_function r) w2))"

definition debug_loop :: "pyval \<Rightarrow> world \<Rightarrow> world" where
  "debug_loop loop_info w = emit LoopStart (start_loop loop_info) w"

definition debug_loop_iteration :: "pyval \<Rightarrow> world \<Rightarrow> world" where
  "debug_loop_iteration iteration w = emit LoopIteration (loop_iteration iteration) w"

definition debug_loop_end :: "world \<Rightarrow> world" where
  "debug_loop_end w = emit LoopEnd end_loop w"

text \<open>
  \<open>debug_condition(condition)\<close> builds the decorator and returns it. Nothing is sent to
  the Graph Builder by the call itself: \<open>add_condition\<close> is called only by the wrapper
  that the decorator would put around a function.
\<close>

definition debug_condition :: "pyval \<Rightarrow> world \<Rightarrow> world" where
  "debug_condition condition w = emit Condition (\<lambda>v. v) w"

definition debug_variable :: "pyval \<Rightarrow> pyval \<Rightarrow> world \<Rightarrow> world" where
  "debug_variable var_name val w = emit Variable (add_variable var_name val) w"

definition debug_if_branch :: "pyval \<Rightarrow> pyval \<Rightarrow> world \<Rightarrow> world" where
  "debug_if_branch condition branch w = emit IfBranch (add_if_branch condition branch) w"

text \<open>
  The builtin \<open>print(*objects, sep=' ', end='\n', file=None, flush=False)\<close>. The only
  stream of the model is the standard output, which is where \<open>file=None\<close> writes; any
  other value given for \<open>file\<close> has no \<open>write\<close> method.
\<close>

definition text_option :: "string \<Rightarrow> pyval option \<Rightarrow> error + string" where
  "text_option dflt opt =
     (case opt of
        None \<Rightarrow> Inr dflt
      | Some VNone \<Rightarrow> Inr dflt
      | Some (VStr s) \<Rightarrow> Inr s
      | Some _ \<Rightarrow> Inl TypeError)"

definition py_print :: "pyval list \<Rightarrow> (string \<times> pyval) list \<Rightarrow> world \<Rightarrow> pyval result" where
  "py_print args kwargs w =
     (if \<not> list_all (\<lambda>kv. fst kv \<in> set [''sep'', ''end'', ''file'', ''flush'']) kwargs
      then (Inl TypeError, w)
      else case text_option '' '' (map_of kwargs ''sep'') of
        Inl e \<Rightarrow> (Inl e, w)
      | Inr sep \<Rightarrow>
          (case text_option [CHR 0x0A] (map_of kwargs ''end'') of
             Inl e \<Rightarrow> (Inl e, w)
           | Inr end_text \<Rightarrow>
               (if map_of kwargs ''file'' \<noteq> None \<and> map_of kwargs ''file'' \<noteq> Some VNone
                then (Inl AttributeError, w)
                else (Inr VNone, w\<lparr>stdout := stdout w @ join sep (map py_str args) @ end_text\<rparr>))))"

definition debug_print :: "pyval list \<Rightarrow> (string \<times> pyval) list \<Rightarrow> world \<Rightarrow> pyval result" where
  "debug_print args kwargs w =
     (let content = join '' '' (map py_repr args);
          w1 = emit Print (add_print (VStr content)) w
      in py_print args kwargs w1)"

section \<open>Running a program\<close>

text \<open>
  The instrumented source is executed by Python itself. The evaluator below is the part
  of Python's semantics that the programs of the syntax above need. Every function
  takes fuel, and spends one unit at each step; \<open>None\<close> means that the fuel ran out.
\<close>

subsection \<open>Names\<close>

text \<open>
  The names that the tracer's own functions look up in the module namespace, which is
  the namespace the program is executed in. A program that binds one of them at module
  level changes the tracer itself, which the model does not follow.
\<close>

definition reserved_names :: "string list" where
  "reserved_names =
     [''print'', ''repr'', ''visualizer'', ''wraps'', ''debug_function'', ''debug_loop'',
      ''debug_loop_iteration'', ''debug_loop_end'', ''debug_condition'', ''debug_variable'',
      ''debug_print'', ''debug_if_branch'']"

definition builtin_names :: "string list" where
  "builtin_names =
     [''print'', ''debug_function'', ''debug_loop'', ''debug_loop_iteration'',
      ''debug_loop_end'', ''debug_condition'', ''debug_variable'', ''debug_print'',
      ''debug_if_branch'']"

text \<open>
  Inside a function the scope is the list of its local names (the parameters and every
  name the body binds) with the values bound so far; at module level there is none.
\<close>

type_synonym scope = "(string list \<times> env) option"

definition resolve_global :: "string \<Rightarrow> world \<Rightarrow> error + binding" where
  "resolve_global x w =
     (case map_of (globals w) x of
        Some b \<Rightarrow> Inr b
      | None \<Rightarrow> if x \<in> set builtin_names then Inr (Builtin x) else Inl Unsupported)"

definition resolve :: "string \<Rightarrow> scope \<Rightarrow> world \<Rightarrow> error + binding" where
  "resolve x loc w =
     (case loc of
        None \<Rightarrow> resolve_global x w
      | Some (local_names, l) \<Rightarrow>
          if x \<in> set local_names
          then (case map_of l x of Some b \<Rightarrow> Inr b | None \<Rightarrow> Inl UnboundLocalError)
          else resolve_global x w)"

definition bind :: "string \<Rightarrow> binding \<Rightarrow> scope \<Rightarrow> world \<Rightarrow> error option \<times> scope \<times> world" where
  "bind x b loc w =
     (case loc of
        Some (local_names, l) \<Rightarrow> (None, Some (local_names, (x, b) # l), w)
      | None \<Rightarrow>
          if x \<in> set reserved_names then (Some Unsupported, None, w)
          else (None, None, w\<lparr>globals := (x, b) # globals w\<rparr>))"

subsection \<open>Values\<close>

definition truthy :: "pyval \<Rightarrow> bool" where
  "truthy v =
     (case v of
        VNone \<Rightarrow> False
      | VBool b \<Rightarrow> b
      | VInt i \<Rightarrow> i \<noteq> 0
      | VStr s \<Rightarrow> s \<noteq> []
      | VList xs \<Rightarrow> xs \<noteq> []
      | VTuple xs \<Rightarrow> xs \<noteq> [])"

definition number :: "pyval \<Rightarrow> int option" where
  "number v = (case v of VInt i \<Rightarrow> Some i | VBool b \<Rightarrow> Some (if b then 1 else 0) | _ \<Rightarrow> None)"

definition compare_int :: "cmpop \<Rightarrow> int \<Rightarrow> int \<Rightarrow> bool" where
  "compare_int op x y =
     (case op of Eq \<Rightarrow> x = y | NotEq \<Rightarrow> x \<noteq> y | Lt \<Rightarrow> x < y | LtE \<Rightarrow> x \<le> y
               | Gt \<Rightarrow> x > y | GtE \<Rightarrow> x \<ge> y)"

definition py_compare :: "cmpop \<Rightarrow> pyval \<Rightarrow> pyval \<Rightarrow> error + pyval" where
  "py_compare op a b =
     (case (number a, number b) of
        (Some x, Some y) \<Rightarrow> Inr (VBool (compare_int op x y))
      | _ \<Rightarrow>
          (case (a, b) of
             (VStr s, VStr t) \<Rightarrow>
               (if op = Eq then Inr (VBool (s = t))
                else if op = NotEq then Inr (VBool (s \<noteq> t))
                else Inl Unsupported)
           | _ \<Rightarrow> Inl Unsupported))"

definition py_binop :: "operator \<Rightarrow> pyval \<Rightarrow> pyval \<Rightarrow> error + pyval" where
  "py_binop op a b =
     (case (number a, number b) of
        (Some x, Some y) \<Rightarrow>
          Inr (VInt (case op of Add \<Rightarrow> x + y | Sub \<Rightarrow> x - y | Mult \<Rightarrow> x * y))
      | _ \<Rightarrow>
          (case (op, a, b) of
             (Add, VStr s, VStr t) \<Rightarrow> Inr (VStr (s @ t))
           | (Add, VList xs, VList ys) \<Rightarrow> Inr (VList (xs @ ys))
           | (Add, VTuple xs, VTuple ys) \<Rightarrow> Inr (VTuple (xs @ ys))
           | _ \<Rightarrow> Inl Unsupported))"

text \<open>The items that iterating over a value yields, if it can be iterated over.\<close>

definition iter_values :: "pyval \<Rightarrow> pyval list option" where
  "iter_values v =
     (case v of
        VList xs \<Rightarrow> Some xs
      | VTuple xs \<Rightarrow> Some xs
      | VStr s \<Rightarrow> Some (map (\<lambda>c. VStr [c]) s)
      | _ \<Rightarrow> None)"

subsection \<open>Binding targets and parameters\<close>

text \<open>
  Assigning a value to a target: a name is bound; a tuple or list of targets unpacks the
  value, item by item from the left. The bindings made before an error stay.
\<close>

fun assign_target :: "expr \<Rightarrow> pyval \<Rightarrow> scope \<Rightarrow> world \<Rightarrow> error option \<times> scope \<times> world"
  and assign_targets :: "expr list \<Rightarrow> pyval list \<Rightarrow> scope \<Rightarrow> world \<Rightarrow> error option \<times> scope \<times> world" where
  "assign_target (Name x) v loc w = bind x (Val v) loc w"
| "assign_target (TupleExpr ts) v loc w =
     (case iter_values v of
        None \<Rightarrow> (Some TypeError, loc, w)
      | Some vs \<Rightarrow> if length vs \<noteq> length ts then (Some ValueError, loc, w)
                   else assign_targets ts vs loc w)"
| "assign_target (ListExpr ts) v loc w =
     (case iter_values v of
        None \<Rightarrow> (Some TypeError, loc, w)
      | Some vs \<Rightarrow> if length vs \<noteq> length ts then (Some ValueError, loc, w)
                   else assign_targets ts vs loc w)"
| "assign_target (Constant c) v loc w = (Some SyntaxError, loc, w)"
| "assign_target (Call f a k) v loc w = (Some SyntaxError, loc, w)"
| "assign_target (Compare l op r) v loc w = (Some SyntaxError, loc, w)"
| "assign_target (BinOp l op r) v loc w = (Some SyntaxError, loc, w)"
| "assign_target (Attribute e a) v loc w = (Some Unsupported, loc, w)"
| "assign_target (Subscript e i) v loc w = (Some Unsupported, loc, w)"
| "assign_targets [] vs loc w = (None, loc, w)"
| "assign_targets (t # ts) vs loc w =
     (case vs of
        [] \<Rightarrow> (Some ValueError, loc, w)
      | x # xs \<Rightarrow>
          (case assign_target t x loc w of
             (Some e, loc1, w1) \<Rightarrow> (Some e, loc1, w1)
           | (None, loc1, w1) \<Rightarrow> assign_targets ts xs loc1 w1))"

text \<open>The same value goes to each target of a chained assignment, from the left.\<close>

fun assign_all :: "expr list \<Rightarrow> pyval \<Rightarrow> scope \<Rightarrow> world \<Rightarrow> error option \<times> scope \<times> world" where
  "assign_all [] v loc w = (None, loc, w)"
| "assign_all (t # ts) v loc w =
     (case assign_target t v loc w of
        (Some e, loc1, w1) \<Rightarrow> (Some e, loc1, w1)
      | (None, loc1, w1) \<Rightarrow> assign_all ts v loc1 w1)"

text \<open>The names that a body binds, which are the local names of a function.\<close>

fun target_names :: "expr \<Rightarrow> string list" where
  "target_names (Name x) = [x]"
| "target_names (TupleExpr ts) = concat (map target_names ts)"
| "target_names (ListExpr ts) = concat (map target_names ts)"
| "target_names e = []"

fun bound_names :: "stmt \<Rightarrow> string list"
  and block_bound_names :: "stmt list \<Rightarrow> string list" where
  "bound_names (FunctionDef name params body decorator_list) = [name]"
| "bound_names (For target iter body orelse) =
     target_names target @ block_bound_names body @ block_bound_names orelse"
| "bound_names (IfStmt test body orelse) = block_bound_names body @ block_bound_names orelse"
| "bound_names (Assign target targets rhs) = concat (map target_names (target # targets))"
| "bound_names (Expr e) = []"
| "bound_names (Return eo) = []"
| "bound_names Pass = []"
| "block_bound_names [] = []"
| "block_bound_names (s # ss) = bound_names s @ block_bound_names ss"

text \<open>
  Binding the arguments of a call to the parameters of a function without defaults:
  positional arguments first, then keywords, each parameter exactly once.
\<close>

definition bind_params :: "string list \<Rightarrow> pyval list \<Rightarrow> (string \<times> pyval) list \<Rightarrow> error + env" where
  "bind_params params args kwargs =
     (if length args > length params then Inl TypeError
      else if \<not> list_all (\<lambda>kv. fst kv \<in> set (drop (length args) params)) kwargs then Inl TypeError
      else if \<not> list_all (\<lambda>p. p \<in> fst ` set kwargs) (drop (length args) params) then Inl TypeError
      else Inr (map (\<lambda>kv. (fst kv, Val (snd kv))) (zip params args @ kwargs)))"

text \<open>
  The state after \<open>k\<close> calls of \<open>add_node\<close> on a visualizer whose counter, path and
  graph agree: \<open>k\<close> nodes named \<open>node_0\<close> \<dots> in order, each edge from one node to the
  next.
\<close>

definition path_state :: "nat \<Rightarrow> visualizer \<Rightarrow> bool" where
  "path_state k v =
     (node_count v = k \<and>
      map fst (dot_nodes v) = map node_name [0..<k] \<and>
      execution_path v = map node_name [0..<k] \<and>
      dot_edges v = map (\<lambda>i. (node_name i, node_name (Suc i))) [0..<k - 1])"

section \<open>Decimal numerals are injective\<close>

lemma digit_char_inj: "a < 10 \<Longrightarrow> b < 10 \<Longrightarrow> digit_char a = digit_char b \<Longrightarrow> a = b"
proof -
  assume a: "a < 10" and b: "b < 10" and e: "digit_char a = digit_char b"
  from e have "(of_char (char_of (48 + a) :: char) :: nat) = of_char (char_of (48 + b) :: char)"
    by (simp add: digit_char_def)
  with a b show "a = b" by simp
qed

lemma str_nat_nonempty: "str_nat n \<noteq> []"
  by (subst str_nat.simps) simp

lemma str_nat_last: "last (str_nat n) = digit_char (n mod 10)"
  by (subst str_nat.simps) simp

lemma str_nat_butlast: "butlast (str_nat n) = (if n < 10 then [] else str_nat (n div 10))"
  by (subst str_nat.simps) simp

lemma str_nat_inj: "str_nat m = str_nat n \<Longrightarrow> m = n"
proof (induction m arbitrary: n rule: less_induct)
  case (less m)
  from less.prems have l: "last (str_nat m) = last (str_nat n)" by simp
  then have "digit_char (m mod 10) = digit_char (n mod 10)" by (simp add: str_nat_last)
  then have m10: "m mod 10 = n mod 10" by (intro digit_char_inj) simp_all
  from less.prems have b: "butlast (str_nat m) = butlast (str_nat n)" by simp
  show ?case
  proof (cases "m < 10")
    case True
    with b have "n < 10"
      using str_nat_nonempty [of "n div 10"]
      by (auto simp: str_nat_butlast split: if_splits)
    with True m10 show ?thesis by simp
  next
    case False
    with b have n: "\<not> n < 10" and d: "str_nat (m div 10) = str_nat (n div 10)"
      using str_nat_nonempty [of "m div 10"] by (auto simp: str_nat_butlast split: if_splits)
    from False have "m div 10 < m" by simp
    from this d have "m div 10 = n div 10" by (rule less.IH)
    with m10 show ?thesis by (metis div_mult_mod_eq)
  qed
qed

lemma node_name_inj: "node_name m = node_name n \<Longrightarrow> m = n"
  by (simp add: node_name_def str_nat_inj)

lemma inj_node_name: "inj node_name"
  by (rule injI) (rule node_name_inj)

section \<open>The graph is a path\<close>

lemma path_state_init: "path_state 0 init_visualizer"
  by (simp add: path_state_def init_visualizer_def)

lemma path_state_add_node:
  assumes "path_state k v"
  shows "path_state (Suc k) (snd (add_node label result shape v))"
proof (cases k)
  case 0
  with assms show ?thesis
    by (simp add: path_state_def add_node_def Let_def)
next
  case (Suc j)
  with assms show ?thesis
    by (simp add: path_state_def add_node_def Let_def)
qed

lemma path_state_add_nodes:
  "path_state k v \<Longrightarrow> path_state (k + length cs) (add_nodes cs v)"
proof (induction cs arbitrary: k v)
  case Nil
  then show ?case by simp
next
  case (Cons c cs)
  obtain label result shape where c: "c = (label, result, shape)" by (cases c)
  from Cons.prems have "path_state (Suc k) (snd (add_node label result shape v))"
    by (rule path_state_add_node)
  then have "path_state (Suc k + length cs) (add_nodes cs (snd (add_node label result shape v)))"
    by (rule Cons.IH)
  with c show ?case by simp
qed

text \<open>
  C1. After any sequence of \<open>n\<close> calls of \<open>add_node\<close> in a fresh session the graph has
  the \<open>n\<close> nodes \<open>node_0\<close>, \<dots>, \<open>node_(n-1)\<close> in creation order, pairwise different, and
  exactly the \<open>n - 1\<close> edges from each node to the next one: a single simple path.
  No edge enters the first node, and the identifiers follow the counter, which has
  grown to \<open>n\<close>.
\<close>

theorem add_nodes_path:
  "let v = add_nodes cs init_visualizer; n = length cs in
     length (dot_nodes v) = n \<and>
     map fst (dot_nodes v) = map node_name [0..<n] \<and>
     distinct (map fst (dot_nodes v)) \<and>
     length (dot_edges v) = n - 1 \<and>
     dot_edges v = map (\<lambda>i. (node_name i, node_name (Suc i))) [0..<n - 1] \<and>
     node_name 0 \<notin> snd ` set (dot_edges v) \<and>
     node_count v = n"
proof -
  have p: "path_state (0 + length cs) (add_nodes cs init_visualizer)"
    using path_state_init by (rule path_state_add_nodes)
  then have ids: "map fst (dot_nodes (add_nodes cs init_visualizer)) = map node_name [0..<length cs]"
    and es: "dot_edges (add_nodes cs init_visualizer)
               = map (\<lambda>i. (node_name i, node_name (Suc i))) [0..<length cs - 1]"
    and cnt: "node_count (add_nodes cs init_visualizer) = length cs"
    by (simp_all add: path_state_def)
  have len: "length (dot_nodes (add_nodes cs init_visualizer)) = length cs"
    using arg_cong [OF ids, of length] by simp
  have dist: "distinct (map node_name [0..<length cs])"
    by (simp add: distinct_map inj_on_def node_name_inj)
  have first: "node_name 0 \<notin> snd ` set (map (\<lambda>i. (node_name i, node_name (Suc i))) [0..<length cs - 1])"
    by (auto dest: node_name_inj)
  show ?thesis
    unfolding Let_def using ids es cnt len dist first by simp
qed

end
